theory Spec2Isabelle
  imports Main "HOL-Library.Word"
begin

section \<open>The page script \<^verbatim>\<open>js/main.js\<close>: popup, form submission, FAQ accordion\<close>

text \<open>
  The script reads elements out of the document, attaches event listeners to them and
  schedules one timer. Its handlers mutate three things: the class list of an element,
  the text content of an element, and the values of a form's controls. The document
  itself (the HTML page) is not part of the script: what the look-ups
  \<^verbatim>\<open>getElementById\<close>, \<^verbatim>\<open>querySelectorAll\<close> and \<^verbatim>\<open>querySelector\<close> return is therefore a
  parameter of the model (the record \<open>page\<close> below), and the elements live in a store
  indexed by references, so that two look-ups may return the same element. The page is
  taken to be markup only: it carries no script and no event handler besides this script.
\<close>

subsection \<open>Strings\<close>

text \<open>A JavaScript string is a sequence of UTF-16 code units.\<close>

type_synonym js_string = "16 word list"

text \<open>An ASCII literal of the source, as code units.\<close>

definition ascii :: "string \<Rightarrow> js_string" where
  "ascii s = map (\<lambda>c. word_of_nat (of_char c)) s"

text \<open>The class tokens \<^verbatim>\<open>"show"\<close> and \<^verbatim>\<open>"rotate"\<close>.\<close>

definition show_class :: js_string where
  "show_class = ascii ''show''"

definition rotate_class :: js_string where
  "rotate_class = ascii ''rotate''"

text \<open>
  The status strings of the two submit handlers, code unit by code unit as they stand in
  the source (lines 22, 24, 39 and 41; the text is Cyrillic).
\<close>

definition vip_sent :: js_string where
  \<comment> \<open>line 22, the text shown when \<^verbatim>\<open>res.ok\<close>\<close>
  "vip_sent = [0x417, 0x430, 0x44F, 0x432, 0x43A, 0x430, 0x20, 0x43E, 0x442, 0x43F,
     0x440, 0x430, 0x432, 0x43B, 0x435, 0x43D, 0x430, 0x21]"

definition vip_failed :: js_string where
  \<comment> \<open>line 22, the text shown when the response is not ok\<close>
  "vip_failed = [0x41E, 0x448, 0x438, 0x431, 0x43A, 0x430, 0x20, 0x43E, 0x442, 0x43F,
     0x440, 0x430, 0x432, 0x43A, 0x438, 0x2E]"

definition contact_sent :: js_string where
  \<comment> \<open>line 39, the text shown when \<^verbatim>\<open>res.ok\<close>\<close>
  "contact_sent = [0x421, 0x43E, 0x43E, 0x431, 0x449, 0x435, 0x43D, 0x438, 0x435, 0x20,
     0x43E, 0x442, 0x43F, 0x440, 0x430, 0x432, 0x43B, 0x435, 0x43D, 0x43E, 0x21]"

definition contact_failed :: js_string where
  \<comment> \<open>line 39, the text shown when the response is not ok\<close>
  "contact_failed = [0x41E, 0x448, 0x438, 0x431, 0x43A, 0x430, 0x2E]"

definition connection_error :: js_string where
  \<comment> \<open>lines 24 and 41, the text of both \<^verbatim>\<open>catch\<close> blocks\<close>
  "connection_error = [0x41E, 0x448, 0x438, 0x431, 0x43A, 0x430, 0x20, 0x441, 0x43E, 0x435,
     0x434, 0x438, 0x43D, 0x435, 0x43D, 0x438, 0x44F, 0x2E]"

subsection \<open>The document and the world around it\<close>

text \<open>
  The controls of a form are the elements the form owns and reaches by name: its inputs,
  selects, textareas and outputs, its buttons, fieldsets and objects, and the images
  inside it (an image button is not among them). A control has an id, a name, a current value and a default value, the one
  the page declares for it and a reset gives back; for an element that a reset leaves
  alone (a button, a fieldset, an object, an image) the value is the default value.

  Two lists place a control in the tree of the page. \<open>cwithin\<close> holds the elements whose
  children cannot be replaced without taking the control out of the form: for a control
  inside the form, the elements around it up to and including the form. \<open>cinner\<close> holds
  the control's own element and the elements inside it.

  An element carries its class list (a \<^verbatim>\<open>DOMTokenList\<close>: tokens in order), the text last
  assigned to it and, when it is a form, its controls in tree order.
\<close>

type_synonym ref = nat

record control =
  cid :: js_string
  cname :: js_string
  cvalue :: js_string
  cdefault :: js_string
  cwithin :: "ref list"
  cinner :: "ref list"

record element =
  classList :: "js_string list"
  textContent :: js_string
  controls :: "control list"

type_synonym dom = "ref \<Rightarrow> element"

text \<open>
  Besides the document the handlers act on the network (the POST requests issued by
  \<^verbatim>\<open>fetch\<close>), on the browser's windows (\<^verbatim>\<open>window.open\<close>) and on the event they are
  given (\<^verbatim>\<open>e.preventDefault()\<close>). The body of a request is the \<^verbatim>\<open>FormData\<close> object that
  the browser builds from a form. Which entries it puts there (it leaves out a control
  without a name, an unchecked box and more) is not modelled: a request records the
  controls of the form as they stood when its body was built.
\<close>

record request =
  url :: js_string
  built_from :: "control list"

record world =
  document :: dom
  requests :: "request list"
  windows :: "js_string list"
  defaultPrevented :: bool

text \<open>
  A statement either completes normally or throws. The errors this script can meet are
  the \<^verbatim>\<open>TypeError\<close> of a property access on \<^verbatim>\<open>null\<close> and the rejection of \<^verbatim>\<open>fetch\<close>.
  A statement returns the world as it is when the statement ends, also when it throws:
  what was written before the throw stays written.
\<close>

datatype js_error = TypeError | NetworkError

datatype completion = Normal | Throw js_error

type_synonym stmt = "world \<Rightarrow> world \<times> completion"

definition then_run :: "stmt \<Rightarrow> stmt \<Rightarrow> stmt" where
  \<comment> \<open>\<^verbatim>\<open>f; g\<close>: \<open>g\<close> runs only when \<open>f\<close> completes normally\<close>
  "then_run f g w = (case f w of (w', Normal) \<Rightarrow> g w' | (w', Throw e) \<Rightarrow> (w', Throw e))"

definition try_catch :: "stmt \<Rightarrow> stmt \<Rightarrow> stmt" where
  \<comment> \<open>\<^verbatim>\<open>try { f } catch { g }\<close>: \<open>g\<close> runs only when \<open>f\<close> throws, and may throw itself\<close>
  "try_catch f g w = (case f w of (w', Normal) \<Rightarrow> (w', Normal) | (w', Throw e) \<Rightarrow> g w')"

subsection \<open>\<^verbatim>\<open>classList\<close>: contains, add, remove, toggle\<close>

definition classList_contains :: "js_string list \<Rightarrow> js_string \<Rightarrow> bool" where
  "classList_contains cl tok = (tok \<in> set cl)"

definition classList_add :: "js_string \<Rightarrow> js_string list \<Rightarrow> js_string list" where
  "classList_add tok cl = (if classList_contains cl tok then cl else cl @ [tok])"

definition classList_remove :: "js_string \<Rightarrow> js_string list \<Rightarrow> js_string list" where
  "classList_remove tok cl = removeAll tok cl"

definition classList_toggle :: "js_string \<Rightarrow> js_string list \<Rightarrow> js_string list" where
  "classList_toggle tok cl =
     (if classList_contains cl tok then classList_remove tok cl else classList_add tok cl)"

text \<open>
  A method call on the class list of a variable that may hold \<^verbatim>\<open>null\<close>
  (\<^verbatim>\<open>x.classList.m(tok)\<close>): it throws when \<open>x\<close> is \<^verbatim>\<open>null\<close> and otherwise replaces the
  class list of the element that \<open>x\<close> refers to.
\<close>

definition on_classList :: "(js_string list \<Rightarrow> js_string list) \<Rightarrow> ref option \<Rightarrow> stmt" where
  "on_classList m x w =
     (case x of
        None \<Rightarrow> (w, Throw TypeError)
      | Some r \<Rightarrow>
          (w\<lparr>document := (document w)
                (r := (document w r)\<lparr>classList := m (classList (document w r))\<rparr>)\<rparr>,
           Normal))"

text \<open>The class test of the properties below: does the element \<open>r\<close> carry the token?\<close>

definition carries :: "world \<Rightarrow> ref \<Rightarrow> js_string \<Rightarrow> bool" where
  "carries w r tok = classList_contains (classList (document w r)) tok"

subsection \<open>Text content and forms\<close>

text \<open>
  \<^verbatim>\<open>x.textContent = s\<close> replaces the children of the element by the text \<open>s\<close>. The
  elements inside it leave the page, and a control among them leaves its form: every
  form keeps the controls that were not inside the element. For a control that is the
  element itself, or contains it, the assignment may change the value or the default
  value, depending on the kind of control (the text inside an output, a textarea or an
  option is its value); the model leaves such a control as it is, and the properties
  below say of it only that it stays in the form and that a reset leaves it with its
  default value.
\<close>

definition replace_children :: "ref \<Rightarrow> dom \<Rightarrow> dom" where
  "replace_children r d =
     (\<lambda>x. (d x)\<lparr>controls := filter (\<lambda>c. r \<notin> set (cwithin c)) (controls (d x))\<rparr>)"

definition set_textContent :: "ref option \<Rightarrow> js_string \<Rightarrow> stmt" where
  \<comment> \<open>\<^verbatim>\<open>x.textContent = s\<close>\<close>
  "set_textContent x s w =
     (case x of
        None \<Rightarrow> (w, Throw TypeError)
      | Some r \<Rightarrow>
          (w\<lparr>document := (replace_children r (document w))
                (r := (replace_children r (document w) r)\<lparr>textContent := s\<rparr>)\<rparr>,
           Normal))"

text \<open>
  \<^verbatim>\<open>form.reset()\<close>. A form looks a property name up among its controls first, by id and
  by name, and only then among its own methods: when a control of the form has the id or
  the name \<^verbatim>\<open>reset\<close>, \<^verbatim>\<open>form.reset\<close> is that control, and the call throws a \<^verbatim>\<open>TypeError\<close>.
  Otherwise it is the reset of the HTML form: each control takes again the value the page
  declares for it. It empties a control only when that declared value is empty.
\<close>

definition reset_name :: js_string where
  "reset_name = ascii ''reset''"

definition named_control :: "js_string \<Rightarrow> control list \<Rightarrow> bool" where
  "named_control n cs = list_ex (\<lambda>c. cid c = n \<or> cname c = n) cs"

definition reset_control :: "control \<Rightarrow> control" where
  "reset_control c = c\<lparr>cvalue := cdefault c\<rparr>"

definition form_reset :: "ref \<Rightarrow> stmt" where
  \<comment> \<open>\<^verbatim>\<open>form.reset()\<close>\<close>
  "form_reset f w =
     (if named_control reset_name (controls (document w f)) then (w, Throw TypeError)
      else
        (w\<lparr>document := (document w)
              (f := (document w f)\<lparr>controls := map reset_control (controls (document w f))\<rparr>)\<rparr>,
         Normal))"

subsection \<open>The callbacks\<close>

text \<open>
  A callback is a closure: the constructor names the function of the source, its
  arguments are the variables the function captured.
\<close>

datatype callback =
    PopupShow "ref option"
  | CloseClick "ref option"
  | DownloadClick
  | VipSubmit ref "ref option"
  | ContactSubmit ref "ref option"
  | FaqClick "ref option" "ref option"

definition popup_show :: "ref option \<Rightarrow> stmt" where
  \<comment> \<open>line 7: \<^verbatim>\<open>() => popup.classList.add("show")\<close>\<close>
  "popup_show popup = on_classList (classList_add show_class) popup"

definition closeBtn_click :: "ref option \<Rightarrow> stmt" where
  \<comment> \<open>line 8: \<^verbatim>\<open>() => popup.classList.remove("show")\<close>\<close>
  "closeBtn_click popup = on_classList (classList_remove show_class) popup"

definition downloadBtn_click :: stmt where
  \<comment> \<open>lines 9 to 11: \<^verbatim>\<open>window.open("dist/aquabriz.exe")\<close>\<close>
  "downloadBtn_click w = (w\<lparr>windows := windows w @ [ascii ''dist/aquabriz.exe'']\<rparr>, Normal)"

definition faq_click :: "ref option \<Rightarrow> ref option \<Rightarrow> stmt" where
  \<comment> \<open>lines 55 to 58\<close>
  "faq_click answer arrow =
     then_run (on_classList (classList_toggle show_class) answer)
              (on_classList (classList_toggle rotate_class) arrow)"

text \<open>
  The submit handlers. Both post to the same address. \<^verbatim>\<open>fetch\<close> settles in one of three
  ways: it resolves with a response whose \<^verbatim>\<open>ok\<close> flag is set, it resolves with a
  response whose flag is not set, or it rejects.
\<close>

datatype fetch_result = Response bool | Rejected

definition endpoint :: js_string where
  "endpoint = ascii (''https://script.google.com/macros/s/'' @
     ''AKfycbxqNxU-QpYR-WBeHZsA34JOH2uWWIyz866pPiFN4ROj2NVc3nj0zZvZ3TNkTA4341-Ytg'' @ ''/exec'')"

definition preventDefault :: stmt where
  "preventDefault w = (w\<lparr>defaultPrevented := True\<rparr>, Normal)"

definition fetch_post :: "ref \<Rightarrow> stmt" where
  \<comment> \<open>\<^verbatim>\<open>const fd = new FormData(form); fetch(url, {method:"POST", body:fd})\<close>: the body
      is built from the controls as they stand at that moment\<close>
  "fetch_post form w =
     (w\<lparr>requests := requests w
          @ [\<lparr>url = endpoint, built_from = controls (document w form)\<rparr>]\<rparr>,
      Normal)"

definition await_then_report :: "ref option \<Rightarrow> js_string \<Rightarrow> js_string \<Rightarrow> fetch_result \<Rightarrow> stmt" where
  \<comment> \<open>the rest of the \<^verbatim>\<open>try\<close> block once \<^verbatim>\<open>fetch\<close> has settled: \<^verbatim>\<open>await\<close> throws on a
      rejection, else \<^verbatim>\<open>status.textContent = res.ok ? sent : failed\<close>\<close>
  "await_then_report status sent failed res w =
     (case res of
        Rejected \<Rightarrow> (w, Throw NetworkError)
      | Response ok \<Rightarrow> set_textContent status (if ok then sent else failed) w)"

definition form_submit ::
  "ref \<Rightarrow> ref option \<Rightarrow> js_string \<Rightarrow> js_string \<Rightarrow> fetch_result \<Rightarrow> stmt" where
  \<comment> \<open>lines 17 to 27 and 34 to 44, from the event to the end of the handler\<close>
  "form_submit form status sent failed res =
     then_run preventDefault
    (then_run (try_catch (then_run (fetch_post form)
                                   (await_then_report status sent failed res))
                         (set_textContent status connection_error))
              (form_reset form))"

text \<open>
  The handler is \<^verbatim>\<open>async\<close>: it is suspended at \<^verbatim>\<open>await\<close> and resumed when the request has
  settled. \<open>form_submit\<close> takes it as one step, with nothing else acting on the page
  while the request is pending.
\<close>

text \<open>
  Running a callback. \<open>res\<close> is how the request settles that the callback sends, if it
  sends one; only the submit handlers do.
\<close>

fun dispatch :: "callback \<Rightarrow> fetch_result \<Rightarrow> stmt" where
  "dispatch (PopupShow popup) res = popup_show popup"
| "dispatch (CloseClick popup) res = closeBtn_click popup"
| "dispatch DownloadClick res = downloadBtn_click"
| "dispatch (VipSubmit form status) res = form_submit form status vip_sent vip_failed res"
| "dispatch (ContactSubmit form status) res =
     form_submit form status contact_sent contact_failed res"
| "dispatch (FaqClick answer arrow) res = faq_click answer arrow"

subsection \<open>What the script finds in the document\<close>

text \<open>
  Each field is the result of one look-up of the source; \<open>None\<close> is \<^verbatim>\<open>null\<close>. The
  elements with the ids \<^verbatim>\<open>vip-form\<close> and \<^verbatim>\<open>contactForm\<close> are taken to be forms, with
  \<^verbatim>\<open>addEventListener\<close> not hidden by a control of that name. An FAQ
  entry is one element of \<^verbatim>\<open>querySelectorAll(".faq-item")\<close> together with the results of
  the three \<^verbatim>\<open>item.querySelector\<close> calls of lines 51 to 53.
\<close>

record faq_item =
  question :: "ref option"
  answer :: "ref option"
  arrow :: "ref option"

record page =
  popup :: "ref option"
  closeBtn :: "ref option"
  downloadBtn :: "ref option"
  vipForm :: "ref option"
  vipStatus :: "ref option"
  contactForm :: "ref option"
  contactStatus :: "ref option"
  faqItems :: "faq_item list"

subsection \<open>Attaching the callbacks\<close>

datatype event_type = Click | Submit

record listener =
  target :: ref
  on_event :: event_type
  callback :: callback

record timer =
  due :: nat
  task :: callback

record registry =
  ready_listener :: bool
  listeners :: "listener list"
  timers :: "timer list"

definition addEventListener :: "ref \<Rightarrow> event_type \<Rightarrow> callback \<Rightarrow> registry \<Rightarrow> registry" where
  "addEventListener x ev cb reg =
     reg\<lparr>listeners := listeners reg @ [\<lparr>target = x, on_event = ev, callback = cb\<rparr>]\<rparr>"

definition setTimeout :: "callback \<Rightarrow> nat \<Rightarrow> nat \<Rightarrow> registry \<Rightarrow> registry" where
  \<comment> \<open>called at time \<open>now\<close> (in milliseconds) with a delay of \<open>ms\<close>\<close>
  "setTimeout cb ms now reg = reg\<lparr>timers := timers reg @ [\<lparr>due = now + ms, task = cb\<rparr>]\<rparr>"

text \<open>
  Lines 2 to 45, the listener of \<^verbatim>\<open>DOMContentLoaded\<close>, run at time \<open>now\<close>. Each
  registration is guarded by the existence of the element it is made on, and by that
  only: the popup is not tested on line 8, the status elements are not tested at all.
\<close>

definition page_ready :: "page \<Rightarrow> nat \<Rightarrow> registry \<Rightarrow> registry" where
  "page_ready pg now reg =
     (let r1 = (case popup pg of
                  None \<Rightarrow> reg
                | Some _ \<Rightarrow> setTimeout (PopupShow (popup pg)) 1000 now reg);
          r2 = (case closeBtn pg of
                  None \<Rightarrow> r1
                | Some b \<Rightarrow> addEventListener b Click (CloseClick (popup pg)) r1);
          r3 = (case downloadBtn pg of
                  None \<Rightarrow> r2
                | Some b \<Rightarrow> addEventListener b Click DownloadClick r2);
          r4 = (case vipForm pg of
                  None \<Rightarrow> r3
                | Some f \<Rightarrow> addEventListener f Submit (VipSubmit f (vipStatus pg)) r3)
      in (case contactForm pg of
            None \<Rightarrow> r4
          | Some f \<Rightarrow> addEventListener f Submit (ContactSubmit f (contactStatus pg)) r4))"

text \<open>
  Lines 50 to 59: \<^verbatim>\<open>faqItems.forEach\<close>. The question is dereferenced without a test, so
  an entry without a question ends the loop with a \<^verbatim>\<open>TypeError\<close>; the answer and the
  indicator are only captured.
\<close>

fun forEach_faq :: "faq_item list \<Rightarrow> registry \<Rightarrow> registry \<times> completion" where
  "forEach_faq [] reg = (reg, Normal)"
| "forEach_faq (item # items) reg =
     (case question item of
        None \<Rightarrow> (reg, Throw TypeError)
      | Some q \<Rightarrow>
          forEach_faq items (addEventListener q Click (FaqClick (answer item) (arrow item)) reg))"

definition no_registrations :: registry where
  "no_registrations = \<lparr>ready_listener = False, listeners = [], timers = []\<rparr>"

definition main_js :: "page \<Rightarrow> registry \<times> completion" where
  \<comment> \<open>the top level of the script: line 1 registers \<open>page_ready\<close>, then the loop runs\<close>
  "main_js pg = forEach_faq (faqItems pg) (no_registrations\<lparr>ready_listener := True\<rparr>)"

subsection \<open>Timers\<close>

text \<open>
  The state of the world at time \<open>t\<close> when nothing but the timers has acted on it: every
  timer that is due by then has run its task, in the order of registration (the script
  registers at most one). A task that throws leaves the world as it was at the throw.
\<close>

fun elapse :: "nat \<Rightarrow> timer list \<Rightarrow> fetch_result \<Rightarrow> world \<Rightarrow> world" where
  "elapse t [] res w = w"
| "elapse t (tm # tms) res w =
     elapse t tms res (if due tm \<le> t then fst (dispatch (task tm) res w) else w)"

subsection \<open>Reading the outcome\<close>

text \<open>
  The listener that the loop attaches for one entry: none when the entry has no question.
\<close>

definition faq_listener :: "faq_item \<Rightarrow> listener list" where
  "faq_listener item =
     (case question item of
        None \<Rightarrow> []
      | Some q \<Rightarrow>
          [\<lparr>target = q, on_event = Click, callback = FaqClick (answer item) (arrow item)\<rparr>])"

text \<open>The values of the controls of the form \<open>f\<close>.\<close>

definition field_values :: "world \<Rightarrow> ref \<Rightarrow> js_string list" where
  "field_values w f = map cvalue (controls (document w f))"

definition fields_empty :: "world \<Rightarrow> ref \<Rightarrow> bool" where
  "fields_empty w f = list_all (\<lambda>v. v = []) (field_values w f)"

text \<open>
  The controls of the form \<open>f\<close> that stay in the form when the children of the element
  \<open>s\<close> are replaced, and whether one of them hides the form's \<^verbatim>\<open>reset\<close>.
\<close>

definition kept_controls :: "ref \<Rightarrow> world \<Rightarrow> ref \<Rightarrow> control list" where
  "kept_controls s w f = filter (\<lambda>c. s \<notin> set (cwithin c)) (controls (document w f))"

definition reset_hidden :: "ref \<Rightarrow> world \<Rightarrow> ref \<Rightarrow> bool" where
  "reset_hidden s w f = named_control reset_name (kept_controls s w f)"

text \<open>Of a list of controls, those that neither are the element \<open>s\<close> nor contain it.\<close>

definition apart_from :: "ref \<Rightarrow> control list \<Rightarrow> control list" where
  "apart_from s cs = filter (\<lambda>c. s \<notin> set (cinner c)) cs"

text \<open>
  The status text that belongs to an outcome, and the world that the handler has made
  when it reaches \<^verbatim>\<open>reset\<close> with a status element \<open>s\<close>: the default action prevented, the
  request sent, the text \<open>t\<close> assigned.
\<close>

definition status_text :: "js_string \<Rightarrow> js_string \<Rightarrow> fetch_result \<Rightarrow> js_string" where
  "status_text sent failed res =
     (case res of Response ok \<Rightarrow> if ok then sent else failed | Rejected \<Rightarrow> connection_error)"

definition before_reset :: "ref \<Rightarrow> ref \<Rightarrow> js_string \<Rightarrow> world \<Rightarrow> world" where
  "before_reset f s t w =
     fst (set_textContent (Some s) t
       (w\<lparr>defaultPrevented := True,
          requests := requests w @ [\<lparr>url = endpoint, built_from = controls (document w f)\<rparr>]\<rparr>))"

subsection \<open>Sample pages\<close>

text \<open>
  A page with every element the script looks for, two FAQ entries, and two forms with a
  text field the visitor has filled in and a field for which the page declares the
  default value \<^verbatim>\<open>basic\<close>, changed by the visitor to \<^verbatim>\<open>gold\<close>. The fields are children
  of their form; the status elements 5 and 7 are empty paragraphs. The popup is hidden
  and the first FAQ answer is open.
\<close>

definition blank :: element where
  "blank = \<lparr>classList = [], textContent = [], controls = []\<rparr>"

definition name_field :: "ref \<Rightarrow> ref \<Rightarrow> control" where
  "name_field f x =
     \<lparr>cid = [], cname = ascii ''name'', cvalue = ascii ''Ann'', cdefault = [],
      cwithin = [f], cinner = [x]\<rparr>"

definition plan_field :: "ref \<Rightarrow> ref \<Rightarrow> control" where
  "plan_field f x =
     \<lparr>cid = [], cname = ascii ''plan'', cvalue = ascii ''gold'', cdefault = ascii ''basic'',
      cwithin = [f], cinner = [x]\<rparr>"

definition sample_form :: "ref \<Rightarrow> element" where
  "sample_form f = blank\<lparr>controls := [name_field f (10 * f + 1), plan_field f (10 * f + 2)]\<rparr>"

definition sample_world :: world where
  "sample_world =
     \<lparr>document = (\<lambda>_. blank)
        (9 := blank\<lparr>classList := [ascii ''popup'']\<rparr>,
         4 := sample_form 4,
         6 := sample_form 6,
         11 := blank\<lparr>classList := [ascii ''faq-answer'', show_class]\<rparr>,
         12 := blank\<lparr>classList := [ascii ''arrow'', rotate_class]\<rparr>,
         21 := blank\<lparr>classList := [ascii ''faq-answer'']\<rparr>,
         22 := blank\<lparr>classList := [ascii ''arrow'']\<rparr>),
      requests = [], windows = [], defaultPrevented = False\<rparr>"

definition sample_page :: page where
  "sample_page =
     \<lparr>popup = Some 9, closeBtn = Some 2, downloadBtn = Some 3,
      vipForm = Some 4, vipStatus = Some 5, contactForm = Some 6, contactStatus = Some 7,
      faqItems = [\<lparr>question = Some 10, answer = Some 11, arrow = Some 12\<rparr>,
                  \<lparr>question = Some 20, answer = Some 21, arrow = Some 22\<rparr>]\<rparr>"

text \<open>The same page without its popup, the close button still there.\<close>

definition page_without_popup :: page where
  "page_without_popup = sample_page\<lparr>popup := None\<rparr>"

text \<open>The same page with a third FAQ entry, in the middle, that has no question.\<close>

definition page_with_broken_entry :: page where
  "page_with_broken_entry =
     sample_page\<lparr>faqItems :=
       [\<lparr>question = Some 10, answer = Some 11, arrow = Some 12\<rparr>,
        \<lparr>question = None, answer = Some 31, arrow = Some 32\<rparr>,
        \<lparr>question = Some 20, answer = Some 21, arrow = Some 22\<rparr>]\<rparr>"

text \<open>
  The same page with, in each form, a reset button that the markup names \<^verbatim>\<open>reset\<close>
  (\<^verbatim>\<open><input type="reset" name="reset" value="Clear">\<close>).
\<close>

definition reset_button :: "ref \<Rightarrow> ref \<Rightarrow> control" where
  "reset_button f x =
     \<lparr>cid = [], cname = ascii ''reset'', cvalue = ascii ''Clear'', cdefault = ascii ''Clear'',
      cwithin = [f], cinner = [x]\<rparr>"

definition form_with_reset_button :: "ref \<Rightarrow> element" where
  "form_with_reset_button f =
     blank\<lparr>controls := [name_field f (10 * f + 1), plan_field f (10 * f + 2),
                         reset_button f (10 * f + 3)]\<rparr>"

definition world_with_reset_button :: world where
  "world_with_reset_button =
     sample_world\<lparr>document := (document sample_world)
       (4 := form_with_reset_button 4, 6 := form_with_reset_button 6)\<rparr>"

text \<open>
  The same page with the status element of each form inside the form and around the
  text field (\<^verbatim>\<open><form id="vip-form"><p id="status"><input name="name"></p> ... </form>\<close>).
\<close>

definition form_with_field_in_status :: "ref \<Rightarrow> ref \<Rightarrow> element" where
  "form_with_field_in_status f s =
     blank\<lparr>controls := [(name_field f (10 * f + 1))\<lparr>cwithin := [s, f]\<rparr>,
                         plan_field f (10 * f + 2)]\<rparr>"

definition world_with_field_in_status :: world where
  "world_with_field_in_status =
     sample_world\<lparr>document := (document sample_world)
       (4 := form_with_field_in_status 4 5, 6 := form_with_field_in_status 6 7)\<rparr>"

text \<open>The same page with a popup that the markup declares with the class \<^verbatim>\<open>show\<close>.\<close>

definition world_with_popup_shown :: world where
  "world_with_popup_shown =
     sample_world\<lparr>document := (document sample_world)
       (9 := blank\<lparr>classList := [ascii ''popup'', show_class]\<rparr>)\<rparr>"

text \<open>
  An FAQ entry around the first entry of the sample page
  (\<^verbatim>\<open><div class="faq-item"><h3 class="faq-question"> ... <div class="faq-item"> ...\<close>):
  it has a question of its own, and \<^verbatim>\<open>querySelector\<close> finds for it the answer and the
  indicator of the entry inside it.
\<close>

definition inner_entry :: faq_item where
  "inner_entry = \<lparr>question = Some 10, answer = Some 11, arrow = Some 12\<rparr>"

definition outer_entry :: faq_item where
  "outer_entry = \<lparr>question = Some 30, answer = Some 11, arrow = Some 12\<rparr>"

section \<open>Properties\<close>

subsection \<open>Class lists\<close>

lemma show_neq_rotate: "show_class \<noteq> rotate_class"
  by (simp add: show_class_def rotate_class_def ascii_def)

lemma contains_add:
  "classList_contains (classList_add t cl) tok = (tok = t \<or> classList_contains cl tok)"
  by (auto simp: classList_add_def classList_contains_def)

lemma contains_remove:
  "classList_contains (classList_remove t cl) tok = (tok \<noteq> t \<and> classList_contains cl tok)"
  by (auto simp: classList_remove_def classList_contains_def)

lemma contains_toggle:
  "classList_contains (classList_toggle t cl) tok =
     (if tok = t then \<not> classList_contains cl t else classList_contains cl tok)"
  by (simp add: classList_toggle_def contains_add contains_remove)

lemma carries_on_classList:
  "carries (fst (on_classList m x w)) y tok =
     (if x = Some y then classList_contains (m (classList (document w y))) tok
      else carries w y tok)"
  by (cases x) (auto simp: on_classList_def carries_def)

lemma snd_on_classList:
  "snd (on_classList m x w) = (if x = None then Throw TypeError else Normal)"
  by (cases x) (auto simp: on_classList_def)

subsection \<open>Registrations\<close>

lemma timers_addEventListener: "timers (addEventListener x ev cb reg) = timers reg"
  by (simp add: addEventListener_def)

lemma timers_forEach_faq: "timers (fst (forEach_faq items reg)) = timers reg"
  by (induction items arbitrary: reg) (auto simp: timers_addEventListener split: option.splits)

lemma timers_main_js: "timers (fst (main_js pg)) = []"
  by (simp add: main_js_def timers_forEach_faq no_registrations_def)

text \<open>The only timer is the popup's, and it is there exactly when the popup is.\<close>

lemma timers_page_ready:
  "timers (page_ready pg now reg) =
     timers reg @
     (case popup pg of
        None \<Rightarrow> []
      | Some _ \<Rightarrow> [\<lparr>due = now + 1000, task = PopupShow (popup pg)\<rparr>])"
  by (simp add: page_ready_def Let_def timers_addEventListener setTimeout_def
      split: option.splits)

lemma listeners_page_ready_closeBtn:
  "closeBtn pg = Some b \<Longrightarrow>
     \<lparr>target = b, on_event = Click, callback = CloseClick (popup pg)\<rparr>
       \<in> set (listeners (page_ready pg now reg))"
  by (simp add: page_ready_def Let_def addEventListener_def setTimeout_def split: option.splits)

text \<open>The submit handlers are attached to their forms with the status look-up as it came.\<close>

lemma listeners_page_ready_forms:
  "vipForm pg = Some f \<Longrightarrow>
     \<lparr>target = f, on_event = Submit, callback = VipSubmit f (vipStatus pg)\<rparr>
       \<in> set (listeners (page_ready pg now reg))"
  "contactForm pg = Some g \<Longrightarrow>
     \<lparr>target = g, on_event = Submit, callback = ContactSubmit g (contactStatus pg)\<rparr>
       \<in> set (listeners (page_ready pg now reg))"
  by (simp_all add: page_ready_def Let_def addEventListener_def setTimeout_def
      split: option.splits)

lemma forEach_faq_stops:
  "\<forall>i\<in>set pre. question i \<noteq> None \<Longrightarrow> question item = None \<Longrightarrow>
     forEach_faq (pre @ item # post) reg =
       (reg\<lparr>listeners := listeners reg @ concat (map faq_listener pre)\<rparr>, Throw TypeError)"
  by (induction pre arbitrary: reg) (auto simp: addEventListener_def faq_listener_def)

lemma forEach_faq_all:
  "\<forall>i\<in>set items. question i \<noteq> None \<Longrightarrow>
     forEach_faq items reg =
       (reg\<lparr>listeners := listeners reg @ concat (map faq_listener items)\<rparr>, Normal)"
  by (induction items arbitrary: reg) (auto simp: addEventListener_def faq_listener_def)

lemma forEach_faq_Normal:
  "(snd (forEach_faq items reg) = Normal) = (\<forall>i\<in>set items. question i \<noteq> None)"
  by (induction items arbitrary: reg) (auto split: option.splits)

subsection \<open>The submit handlers\<close>

lemma controls_replace_children:
  "controls (replace_children r d x) = filter (\<lambda>c. r \<notin> set (cwithin c)) (controls (d x))"
  by (simp add: replace_children_def)

lemma textContent_set_textContent:
  "textContent (document (fst (set_textContent (Some s) t w)) s) = t"
  by (simp add: set_textContent_def)

lemma controls_set_textContent:
  "controls (document (fst (set_textContent (Some s) t w)) f) = kept_controls s w f"
  by (simp add: set_textContent_def kept_controls_def controls_replace_children)

lemma form_submit_Some:
  "form_submit f (Some s) sent failed res w =
     form_reset f (before_reset f s (status_text sent failed res) w)"
  by (cases res)
     (simp_all add: form_submit_def then_run_def try_catch_def preventDefault_def
        fetch_post_def await_then_report_def set_textContent_def before_reset_def
        status_text_def)

lemma textContent_before_reset: "textContent (document (before_reset f s t w) s) = t"
  by (simp add: before_reset_def textContent_set_textContent)

lemma controls_before_reset: "controls (document (before_reset f s t w) f) = kept_controls s w f"
  by (simp add: before_reset_def controls_set_textContent kept_controls_def)

lemma textContent_form_reset:
  "textContent (document (fst (form_reset f w)) s) = textContent (document w s)"
  by (simp add: form_reset_def)

lemma snd_form_reset:
  "snd (form_reset f w) =
     (if named_control reset_name (controls (document w f)) then Throw TypeError else Normal)"
  by (simp add: form_reset_def)

lemma controls_form_reset:
  "controls (document (fst (form_reset f w)) f) =
     (if named_control reset_name (controls (document w f)) then controls (document w f)
      else map reset_control (controls (document w f)))"
  by (simp add: form_reset_def)

text \<open>
  The three things the handler leaves behind when the status element is there: the
  status text, the completion and the controls of the form. They hold whether or not the
  status element and the form are the same element.
\<close>

lemma textContent_form_submit:
  "textContent (document (fst (form_submit f (Some s) sent failed res w)) s) =
     (case res of Response ok \<Rightarrow> if ok then sent else failed | Rejected \<Rightarrow> connection_error)"
  by (simp add: form_submit_Some textContent_form_reset textContent_before_reset
      status_text_def)

lemma snd_form_submit:
  "snd (form_submit f (Some s) sent failed res w) =
     (if reset_hidden s w f then Throw TypeError else Normal)"
  by (simp add: form_submit_Some snd_form_reset controls_before_reset reset_hidden_def)

lemma controls_form_submit:
  "controls (document (fst (form_submit f (Some s) sent failed res w)) f) =
     (if reset_hidden s w f then kept_controls s w f
      else map reset_control (kept_controls s w f))"
  by (simp add: form_submit_Some controls_form_reset controls_before_reset reset_hidden_def)

lemma apart_from_reset: "apart_from s (map reset_control cs) = map reset_control (apart_from s cs)"
  by (induction cs) (simp_all add: apart_from_def reset_control_def)

lemma cvalue_reset_control: "cvalue (reset_control c) = cdefault c"
  by (simp add: reset_control_def)

lemma cvalue_reset: "map cvalue (map reset_control cs) = map cdefault cs"
  by (simp add: cvalue_reset_control)

lemma reset_holds_default: "list_all (\<lambda>c. cvalue c = cdefault c) (map reset_control cs)"
  by (induction cs) (simp_all add: reset_control_def)

text \<open>
  What the claims on the submit handlers share, for any outcome: a \<^verbatim>\<open>TypeError\<close> and no
  reset when a control hides \<^verbatim>\<open>reset\<close>, and else the reset of the controls that stayed.
\<close>

lemma form_submit_outcome:
  "(reset_hidden s w f \<longrightarrow>
      snd (form_submit f (Some s) sent failed res w) = Throw TypeError
    \<and> apart_from s (controls (document (fst (form_submit f (Some s) sent failed res w)) f))
        = apart_from s (kept_controls s w f))
   \<and> (\<not> reset_hidden s w f \<longrightarrow>
      snd (form_submit f (Some s) sent failed res w) = Normal
    \<and> apart_from s (controls (document (fst (form_submit f (Some s) sent failed res w)) f))
        = map reset_control (apart_from s (kept_controls s w f))
    \<and> map cvalue
        (apart_from s (controls (document (fst (form_submit f (Some s) sent failed res w)) f)))
        = map cdefault (apart_from s (kept_controls s w f))
    \<and> list_all (\<lambda>c. cvalue c = cdefault c)
        (controls (document (fst (form_submit f (Some s) sent failed res w)) f)))"
  using reset_holds_default [of "kept_controls s w f"]
  by (simp add: snd_form_submit controls_form_submit apart_from_reset cvalue_reset_control)

text \<open>
  Without a status element the assignment in the \<^verbatim>\<open>try\<close> block throws, or the rejection
  does, the assignment in the \<^verbatim>\<open>catch\<close> block throws again, and \<^verbatim>\<open>reset\<close> is not reached:
  the request has left and the document is as it was.
\<close>

lemma form_submit_no_status:
  "form_submit f None sent failed res w =
     (w\<lparr>defaultPrevented := True,
        requests := requests w @ [\<lparr>url = endpoint, built_from = controls (document w f)\<rparr>]\<rparr>,
      Throw TypeError)"
  by (cases res)
     (simp_all add: form_submit_def then_run_def try_catch_def preventDefault_def
        fetch_post_def await_then_report_def set_textContent_def)

lemma field_values_no_status:
  "field_values (fst (form_submit f None sent failed res w)) f = field_values w f"
  by (simp add: form_submit_no_status field_values_def)

text \<open>The body of the request is built from the controls before the reset.\<close>

lemma requests_form_submit:
  "requests (fst (form_submit f st sent failed res w)) =
     requests w @ [\<lparr>url = endpoint, built_from = controls (document w f)\<rparr>]"
  by (cases res; cases st)
     (simp_all add: form_submit_def then_run_def try_catch_def preventDefault_def
        fetch_post_def await_then_report_def set_textContent_def form_reset_def)

lemma texts_distinct:
  "distinct [vip_sent, vip_failed, connection_error]"
  "distinct [contact_sent, contact_failed, connection_error]"
  by (simp_all add: vip_sent_def vip_failed_def contact_sent_def contact_failed_def
      connection_error_def)

text \<open>The sample forms, read.\<close>

lemma reset_name_neq: "ascii ''name'' \<noteq> reset_name" "ascii ''plan'' \<noteq> reset_name"
  "[] \<noteq> reset_name"
  by (simp_all add: reset_name_def ascii_def)

lemma sample_controls:
  "controls (document sample_world 4) = [name_field 4 41, plan_field 4 42]"
  "controls (document sample_world 6) = [name_field 6 61, plan_field 6 62]"
  "controls (document world_with_reset_button 4)
     = [name_field 4 41, plan_field 4 42, reset_button 4 43]"
  "controls (document world_with_reset_button 6)
     = [name_field 6 61, plan_field 6 62, reset_button 6 63]"
  "controls (document world_with_field_in_status 4)
     = [(name_field 4 41)\<lparr>cwithin := [5, 4]\<rparr>, plan_field 4 42]"
  "controls (document world_with_field_in_status 6)
     = [(name_field 6 61)\<lparr>cwithin := [7, 6]\<rparr>, plan_field 6 62]"
  by (simp_all add: sample_world_def sample_form_def world_with_reset_button_def
      form_with_reset_button_def world_with_field_in_status_def
      form_with_field_in_status_def)

lemma sample_kept:
  "kept_controls 5 sample_world 4 = [name_field 4 41, plan_field 4 42]"
  "kept_controls 7 sample_world 6 = [name_field 6 61, plan_field 6 62]"
  "kept_controls 5 world_with_reset_button 4
     = [name_field 4 41, plan_field 4 42, reset_button 4 43]"
  "kept_controls 7 world_with_reset_button 6
     = [name_field 6 61, plan_field 6 62, reset_button 6 63]"
  "kept_controls 5 world_with_field_in_status 4 = [plan_field 4 42]"
  "kept_controls 7 world_with_field_in_status 6 = [plan_field 6 62]"
  by (simp_all add: kept_controls_def sample_controls name_field_def plan_field_def
      reset_button_def)

lemma sample_reset_hidden:
  "\<not> reset_hidden 5 sample_world 4"
  "\<not> reset_hidden 7 sample_world 6"
  "reset_hidden 5 world_with_reset_button 4"
  "reset_hidden 7 world_with_reset_button 6"
  "\<not> reset_hidden 5 world_with_field_in_status 4"
  "\<not> reset_hidden 7 world_with_field_in_status 6"
  using reset_name_neq
  by (simp_all add: reset_hidden_def named_control_def sample_kept name_field_def
      plan_field_def reset_button_def reset_name_def)

lemma sample_apart:
  "apart_from 5 [name_field 4 41, plan_field 4 42] = [name_field 4 41, plan_field 4 42]"
  "apart_from 7 [name_field 6 61, plan_field 6 62] = [name_field 6 61, plan_field 6 62]"
  "apart_from 5 [plan_field 4 42] = [plan_field 4 42]"
  "apart_from 7 [plan_field 6 62] = [plan_field 6 62]"
  "apart_from 5 [name_field 4 41, plan_field 4 42, reset_button 4 43]
     = [name_field 4 41, plan_field 4 42, reset_button 4 43]"
  "apart_from 7 [name_field 6 61, plan_field 6 62, reset_button 6 63]
     = [name_field 6 61, plan_field 6 62, reset_button 6 63]"
  by (simp_all add: apart_from_def name_field_def plan_field_def reset_button_def)

lemma basic_not_empty: "ascii ''basic'' \<noteq> []" "ascii ''Ann'' \<noteq> []"
  by (simp_all add: ascii_def)

text \<open>
  C1. For either form, when the submit handler runs, the status element is there and the
  POST resolves with an ok response, the status element shows the form's success string.
  The assignment of that text takes the controls inside the status element out of the
  form. Then, when a control still in the form has the id or the name \<^verbatim>\<open>reset\<close>, the call
  of \<^verbatim>\<open>reset\<close> throws a \<^verbatim>\<open>TypeError\<close> and the controls keep their values. Otherwise the
  handler ends normally and the form has been reset: every control still in the form
  holds its default value, which need not be empty, and which is the one the page
  declares for it (for a control that is the status element or contains it, the
  assignment of the text may have changed the default value).
\<close>

theorem submit_success_resets:
  assumes "cb = VipSubmit f (Some s) \<and> sent = vip_sent
         \<or> cb = ContactSubmit f (Some s) \<and> sent = contact_sent"
  shows "textContent (document (fst (dispatch cb (Response True) w)) s) = sent
       \<and> (reset_hidden s w f \<longrightarrow>
            snd (dispatch cb (Response True) w) = Throw TypeError
          \<and> apart_from s (controls (document (fst (dispatch cb (Response True) w)) f))
              = apart_from s (kept_controls s w f))
       \<and> (\<not> reset_hidden s w f \<longrightarrow>
            snd (dispatch cb (Response True) w) = Normal
          \<and> apart_from s (controls (document (fst (dispatch cb (Response True) w)) f))
              = map reset_control (apart_from s (kept_controls s w f))
          \<and> map cvalue
              (apart_from s (controls (document (fst (dispatch cb (Response True) w)) f)))
              = map cdefault (apart_from s (kept_controls s w f))
          \<and> list_all (\<lambda>c. cvalue c = cdefault c)
              (controls (document (fst (dispatch cb (Response True) w)) f)))"
proof -
  from assms consider
      (vip) "cb = VipSubmit f (Some s)" "sent = vip_sent"
    | (contact) "cb = ContactSubmit f (Some s)" "sent = contact_sent"
    by blast
  then show ?thesis
  proof cases
    case vip
    then show ?thesis
      using form_submit_outcome [of s w f vip_sent vip_failed "Response True"]
      by (simp add: textContent_form_submit cvalue_reset_control)
  next
    case contact
    then show ?thesis
      using form_submit_outcome [of s w f contact_sent contact_failed "Response True"]
      by (simp add: textContent_form_submit cvalue_reset_control)
  qed
qed

text \<open>
  Two successful submissions of the VIP form. On the sample page the success string is
  shown and the field with the declared default holds that default, so the fields are
  not empty. On the page with the button named \<^verbatim>\<open>reset\<close> the handler ends with a
  \<^verbatim>\<open>TypeError\<close> and the fields hold what the visitor entered.
\<close>

theorem submit_success_not_empty:
  "textContent (document (fst (dispatch (VipSubmit 4 (Some 5)) (Response True) sample_world)) 5)
     = vip_sent
   \<and> field_values (fst (dispatch (VipSubmit 4 (Some 5)) (Response True) sample_world)) 4
     = [[], ascii ''basic'']
   \<and> \<not> fields_empty (fst (dispatch (VipSubmit 4 (Some 5)) (Response True) sample_world)) 4
   \<and> snd (dispatch (VipSubmit 4 (Some 5)) (Response True) world_with_reset_button)
     = Throw TypeError
   \<and> field_values (fst (dispatch (VipSubmit 4 (Some 5)) (Response True)
        world_with_reset_button)) 4
     = [ascii ''Ann'', ascii ''gold'', ascii ''Clear'']"
  using basic_not_empty
  by (simp add: textContent_form_submit snd_form_submit controls_form_submit
      field_values_def fields_empty_def sample_reset_hidden sample_kept cvalue_reset_control name_field_def plan_field_def
      reset_button_def)

text \<open>
  Successful submissions of the contact form: on the sample page, where both fields are
  reset; on the page whose status element holds the text field, which leaves the form,
  the other field being reset; and on the page with the button named \<^verbatim>\<open>reset\<close>.
\<close>

theorem submit_success_resets_witness:
  "textContent (document (fst (dispatch (ContactSubmit 6 (Some 7)) (Response True)
       sample_world)) 7) = contact_sent
   \<and> snd (dispatch (ContactSubmit 6 (Some 7)) (Response True) sample_world) = Normal
   \<and> field_values (fst (dispatch (ContactSubmit 6 (Some 7)) (Response True) sample_world)) 6
       = [[], ascii ''basic'']
   \<and> snd (dispatch (ContactSubmit 6 (Some 7)) (Response True) world_with_field_in_status)
       = Normal
   \<and> field_values (fst (dispatch (ContactSubmit 6 (Some 7)) (Response True)
        world_with_field_in_status)) 6 = [ascii ''basic'']
   \<and> snd (dispatch (ContactSubmit 6 (Some 7)) (Response True) world_with_reset_button)
       = Throw TypeError"
  using submit_success_resets [of "ContactSubmit 6 (Some 7)" 6 7 contact_sent sample_world]
    submit_success_resets [of "ContactSubmit 6 (Some 7)" 6 7 contact_sent
      world_with_field_in_status]
    submit_success_resets [of "ContactSubmit 6 (Some 7)" 6 7 contact_sent
      world_with_reset_button]
  by (simp add: sample_reset_hidden sample_kept sample_apart cvalue_reset_control name_field_def plan_field_def
      reset_button_def field_values_def
      controls_form_submit)

text \<open>
  C2. For either form, when the submit handler runs, the status element is there and the
  remote call throws, the status element shows the connection-error string. The
  assignment of that text takes the controls inside the status element out of the form.
  Then, when a control still in the form has the id or the name \<^verbatim>\<open>reset\<close>, the call of
  \<^verbatim>\<open>reset\<close> throws a \<^verbatim>\<open>TypeError\<close> and the controls keep their values. Otherwise the
  handler ends normally and the form has been reset: every control still in the form
  holds its default value, which need not be empty, and which is the one the page
  declares for it (for a control that is the status element or contains it, the
  assignment of the text may have changed the default value).
\<close>

theorem submit_throw_resets:
  assumes "cb = VipSubmit f (Some s) \<or> cb = ContactSubmit f (Some s)"
  shows "textContent (document (fst (dispatch cb Rejected w)) s) = connection_error
       \<and> (reset_hidden s w f \<longrightarrow>
            snd (dispatch cb Rejected w) = Throw TypeError
          \<and> apart_from s (controls (document (fst (dispatch cb Rejected w)) f))
              = apart_from s (kept_controls s w f))
       \<and> (\<not> reset_hidden s w f \<longrightarrow>
            snd (dispatch cb Rejected w) = Normal
          \<and> apart_from s (controls (document (fst (dispatch cb Rejected w)) f))
              = map reset_control (apart_from s (kept_controls s w f))
          \<and> map cvalue (apart_from s (controls (document (fst (dispatch cb Rejected w)) f)))
              = map cdefault (apart_from s (kept_controls s w f))
          \<and> list_all (\<lambda>c. cvalue c = cdefault c)
              (controls (document (fst (dispatch cb Rejected w)) f)))"
proof -
  from assms consider
      (vip) "cb = VipSubmit f (Some s)" | (contact) "cb = ContactSubmit f (Some s)"
    by blast
  then show ?thesis
  proof cases
    case vip
    then show ?thesis
      using form_submit_outcome [of s w f vip_sent vip_failed Rejected]
      by (simp add: textContent_form_submit cvalue_reset_control)
  next
    case contact
    then show ?thesis
      using form_submit_outcome [of s w f contact_sent contact_failed Rejected]
      by (simp add: textContent_form_submit cvalue_reset_control)
  qed
qed

text \<open>
  Two submissions of the contact form in which the remote call throws. On the sample
  page the connection-error string is shown and the fields are not empty. On the page
  with the button named \<^verbatim>\<open>reset\<close> the handler ends with a \<^verbatim>\<open>TypeError\<close> and the fields
  hold what the visitor entered.
\<close>

theorem submit_throw_not_empty:
  "textContent (document (fst (dispatch (ContactSubmit 6 (Some 7)) Rejected sample_world)) 7)
     = connection_error
   \<and> field_values (fst (dispatch (ContactSubmit 6 (Some 7)) Rejected sample_world)) 6
     = [[], ascii ''basic'']
   \<and> \<not> fields_empty (fst (dispatch (ContactSubmit 6 (Some 7)) Rejected sample_world)) 6
   \<and> snd (dispatch (ContactSubmit 6 (Some 7)) Rejected world_with_reset_button)
     = Throw TypeError
   \<and> field_values (fst (dispatch (ContactSubmit 6 (Some 7)) Rejected
        world_with_reset_button)) 6
     = [ascii ''Ann'', ascii ''gold'', ascii ''Clear'']"
  using basic_not_empty
  by (simp add: textContent_form_submit snd_form_submit controls_form_submit
      field_values_def fields_empty_def sample_reset_hidden sample_kept cvalue_reset_control name_field_def plan_field_def
      reset_button_def)

theorem submit_throw_resets_witness:
  "textContent (document (fst (dispatch (VipSubmit 4 (Some 5)) Rejected sample_world)) 5)
       = connection_error
   \<and> snd (dispatch (VipSubmit 4 (Some 5)) Rejected sample_world) = Normal
   \<and> field_values (fst (dispatch (VipSubmit 4 (Some 5)) Rejected sample_world)) 4
       = [[], ascii ''basic'']
   \<and> snd (dispatch (VipSubmit 4 (Some 5)) Rejected world_with_field_in_status) = Normal
   \<and> field_values (fst (dispatch (VipSubmit 4 (Some 5)) Rejected
        world_with_field_in_status)) 4 = [ascii ''basic'']
   \<and> snd (dispatch (VipSubmit 4 (Some 5)) Rejected world_with_reset_button)
       = Throw TypeError"
  using submit_throw_resets [of "VipSubmit 4 (Some 5)" 4 5 sample_world]
    submit_throw_resets [of "VipSubmit 4 (Some 5)" 4 5 world_with_field_in_status]
    submit_throw_resets [of "VipSubmit 4 (Some 5)" 4 5 world_with_reset_button]
  by (simp add: sample_reset_hidden sample_kept sample_apart cvalue_reset_control name_field_def plan_field_def
      reset_button_def field_values_def
      controls_form_submit)

text \<open>
  C3. For every outcome of a form submission (success response, non-success response,
  thrown error), when the status element is there and no control still in the form has
  the id or the name \<^verbatim>\<open>reset\<close>, the submit handler ends normally and has reset the form:
  every control still in the form holds its default value, the one the page declares
  for it (for a control that is the status element or contains it, the assignment of
  the text may have changed the default value), the same result whatever the outcome
  was.
  When a control still in the form has the id or the name \<^verbatim>\<open>reset\<close>, the handler ends
  with a \<^verbatim>\<open>TypeError\<close> and without a reset, again whatever the outcome was.
\<close>

theorem form_reset_any_outcome:
  assumes "cb = VipSubmit f (Some s) \<or> cb = ContactSubmit f (Some s)"
  shows "(reset_hidden s w f \<longrightarrow>
            snd (dispatch cb res w) = Throw TypeError
          \<and> apart_from s (controls (document (fst (dispatch cb res w)) f))
              = apart_from s (kept_controls s w f))
       \<and> (\<not> reset_hidden s w f \<longrightarrow>
            snd (dispatch cb res w) = Normal
          \<and> apart_from s (controls (document (fst (dispatch cb res w)) f))
              = map reset_control (apart_from s (kept_controls s w f))
          \<and> map cvalue (apart_from s (controls (document (fst (dispatch cb res w)) f)))
              = map cdefault (apart_from s (kept_controls s w f))
          \<and> list_all (\<lambda>c. cvalue c = cdefault c)
              (controls (document (fst (dispatch cb res w)) f)))"
proof -
  from assms consider
      (vip) "cb = VipSubmit f (Some s)" | (contact) "cb = ContactSubmit f (Some s)"
    by blast
  then show ?thesis
  proof cases
    case vip
    then show ?thesis
      using form_submit_outcome [of s w f vip_sent vip_failed res]
      by (simp add: cvalue_reset_control)
  next
    case contact
    then show ?thesis
      using form_submit_outcome [of s w f contact_sent contact_failed res]
      by (simp add: cvalue_reset_control)
  qed
qed

text \<open>
  Three runs of the VIP handler. On the sample page, after a non-success response, the
  reset form is not empty. When the page has no status element, the handler throws
  before it reaches the reset, and the fields keep what the visitor entered. And on the
  page with the button named \<^verbatim>\<open>reset\<close>, after a non-success response, the call of
  \<^verbatim>\<open>reset\<close> throws and the fields keep what the visitor entered.
\<close>

theorem form_reset_not_unconditional:
  "\<not> fields_empty (fst (dispatch (VipSubmit 4 (Some 5)) (Response False) sample_world)) 4
   \<and> snd (dispatch (VipSubmit 4 None) (Response True) sample_world) = Throw TypeError
   \<and> field_values (fst (dispatch (VipSubmit 4 None) (Response True) sample_world)) 4
       = [ascii ''Ann'', ascii ''gold'']
   \<and> snd (dispatch (VipSubmit 4 (Some 5)) (Response False) world_with_reset_button)
       = Throw TypeError
   \<and> field_values (fst (dispatch (VipSubmit 4 (Some 5)) (Response False)
        world_with_reset_button)) 4
       = [ascii ''Ann'', ascii ''gold'', ascii ''Clear'']"
proof -
  have "field_values (fst (dispatch (VipSubmit 4 None) (Response True) sample_world)) 4
      = [ascii ''Ann'', ascii ''gold'']"
    by (simp add: field_values_no_status)
      (simp add: field_values_def sample_controls cvalue_reset_control name_field_def plan_field_def
      reset_button_def)
  moreover have "snd (dispatch (VipSubmit 4 None) (Response True) sample_world)
      = Throw TypeError"
    by (simp add: form_submit_no_status)
  ultimately show ?thesis
    using basic_not_empty
    by (simp add: snd_form_submit controls_form_submit field_values_def fields_empty_def
        sample_reset_hidden sample_kept cvalue_reset_control name_field_def plan_field_def
      reset_button_def)
qed

theorem form_reset_any_outcome_witness:
  "snd (dispatch (ContactSubmit 6 (Some 7)) (Response False) sample_world) = Normal
   \<and> field_values (fst (dispatch (ContactSubmit 6 (Some 7)) (Response False) sample_world)) 6
       = [[], ascii ''basic'']
   \<and> snd (dispatch (ContactSubmit 6 (Some 7)) Rejected world_with_field_in_status) = Normal
   \<and> field_values (fst (dispatch (ContactSubmit 6 (Some 7)) Rejected
        world_with_field_in_status)) 6 = [ascii ''basic'']
   \<and> snd (dispatch (ContactSubmit 6 (Some 7)) (Response True) world_with_reset_button)
       = Throw TypeError"
  using form_reset_any_outcome [of "ContactSubmit 6 (Some 7)" 6 7 sample_world "Response False"]
    form_reset_any_outcome [of "ContactSubmit 6 (Some 7)" 6 7 world_with_field_in_status
      Rejected]
    form_reset_any_outcome [of "ContactSubmit 6 (Some 7)" 6 7 world_with_reset_button
      "Response True"]
  by (simp add: sample_reset_hidden sample_kept sample_apart cvalue_reset_control name_field_def plan_field_def
      reset_button_def field_values_def
      controls_form_submit)

text \<open>
  C4. Per form submission the status text tells three outcomes apart, not two: a success
  response gives the form's success string, a non-success response the form's generic
  error string, a thrown error the connection-error string, and the three strings of a
  form are pairwise distinct. Grouped as success or not, the success string is shown
  exactly when the response is ok.
\<close>

theorem status_text_three_outcomes:
  "textContent (document (fst (dispatch (VipSubmit f (Some s)) res w)) s)
     = (case res of
          Response ok \<Rightarrow> if ok then vip_sent else vip_failed
        | Rejected \<Rightarrow> connection_error)
   \<and> textContent (document (fst (dispatch (ContactSubmit f (Some s)) res w)) s)
     = (case res of
          Response ok \<Rightarrow> if ok then contact_sent else contact_failed
        | Rejected \<Rightarrow> connection_error)
   \<and> distinct [vip_sent, vip_failed, connection_error]
   \<and> distinct [contact_sent, contact_failed, connection_error]
   \<and> (textContent (document (fst (dispatch (VipSubmit f (Some s)) res w)) s) = vip_sent)
       = (res = Response True)
   \<and> (textContent (document (fst (dispatch (ContactSubmit f (Some s)) res w)) s)
        = contact_sent) = (res = Response True)"
  using texts_distinct
  by (cases res) (auto simp: textContent_form_submit)

text \<open>
  On the sample page the three outcomes of one submission of the VIP form leave three
  different status texts: a non-success response and a thrown error are told apart.
\<close>

theorem status_text_not_two:
  "distinct
     [textContent (document (fst (dispatch (VipSubmit 4 (Some 5)) (Response True)
        sample_world)) 5),
      textContent (document (fst (dispatch (VipSubmit 4 (Some 5)) (Response False)
        sample_world)) 5),
      textContent (document (fst (dispatch (VipSubmit 4 (Some 5)) Rejected
        sample_world)) 5)]"
  using texts_distinct(1) by (simp add: textContent_form_submit)

subsection \<open>The FAQ accordion\<close>

lemma carries_then_run_on_classList:
  "carries (fst (then_run (on_classList m x) (on_classList n y) w)) z tok =
     (if x = None then carries w z tok
      else carries (fst (on_classList n y (fst (on_classList m x w)))) z tok)"
  by (cases x) (auto simp: then_run_def on_classList_def split: prod.splits completion.splits)

text \<open>
  What one click does to the class membership of any element \<open>x\<close> and any token: it flips
  \<^verbatim>\<open>show\<close> on the answer and, when the answer is there, \<^verbatim>\<open>rotate\<close> on the indicator, and
  nothing else.
\<close>

lemma carries_faq_click:
  "carries (fst (faq_click a r w)) x tok =
     (if a = None then carries w x tok
      else if r = Some x \<and> tok = rotate_class then \<not> carries w x tok
      else if a = Some x \<and> tok = show_class then \<not> carries w x tok
      else carries w x tok)"
  using show_neq_rotate
  by (auto simp: faq_click_def carries_then_run_on_classList carries_on_classList
      contains_toggle carries_def[symmetric])

lemma sample_world_carries:
  "carries sample_world 9 show_class = False"
  "carries sample_world 11 show_class = True"
  "carries sample_world 12 rotate_class = True"
  "carries sample_world 21 show_class = False"
  "carries sample_world 22 rotate_class = False"
  by (simp_all add: carries_def classList_contains_def sample_world_def blank_def
      show_class_def rotate_class_def ascii_def)

text \<open>
  C5. For each FAQ entry, two clicks in a row on its question (the click handler of lines
  55 to 58 run twice, the second time on the world the first one left) give back the class
  membership that stood before the two clicks: that of \<^verbatim>\<open>show\<close> on the answer, that of
  \<^verbatim>\<open>rotate\<close> on the indicator, and in fact that of every token on every element \<open>x\<close>.
  This holds for every starting state, also when the entry lacks its answer or its
  indicator and the handler throws, and whatever the two look-ups returned.
\<close>

theorem faq_click_twice:
  "carries (fst (dispatch (FaqClick (answer item) (arrow item)) res2
              (fst (dispatch (FaqClick (answer item) (arrow item)) res1 w)))) x tok
   = carries w x tok"
  by (simp add: carries_faq_click)

text \<open>
  C8. Take two FAQ entries that do not share their answer element nor their indicator
  element. Running the click handler of one (\<open>clicked\<close>) leaves the \<^verbatim>\<open>show\<close> membership
  of the other's answer and the \<^verbatim>\<open>rotate\<close> membership of the other's indicator as they
  were. Two distinct entries can share both elements, when one lies inside the other,
  and then the click on one does change the other.
\<close>

theorem faq_click_independent:
  assumes "answer other = Some a" and "arrow other = Some r"
    and "answer clicked \<noteq> Some a" and "arrow clicked \<noteq> Some r"
  shows "carries (fst (dispatch (FaqClick (answer clicked) (arrow clicked)) res w)) a show_class
           = carries w a show_class
       \<and> carries (fst (dispatch (FaqClick (answer clicked) (arrow clicked)) res w)) r rotate_class
           = carries w r rotate_class"
  using assms show_neq_rotate by (auto simp: carries_faq_click)

text \<open>
  The entry around the first entry of the sample page is another entry, with a question
  of its own, and a click on its question closes the answer of the first entry and
  turns its indicator back.
\<close>

theorem faq_click_shared_answer:
  "outer_entry \<noteq> inner_entry
   \<and> answer inner_entry = Some 11 \<and> arrow inner_entry = Some 12
   \<and> carries sample_world 11 show_class
   \<and> \<not> carries (fst (dispatch (FaqClick (answer outer_entry) (arrow outer_entry)) Rejected
         sample_world)) 11 show_class
   \<and> carries sample_world 12 rotate_class
   \<and> \<not> carries (fst (dispatch (FaqClick (answer outer_entry) (arrow outer_entry)) Rejected
         sample_world)) 12 rotate_class"
  using show_neq_rotate
  by (simp add: outer_entry_def inner_entry_def carries_faq_click sample_world_carries)

text \<open>
  On the sample page a click on the second question opens the second answer and leaves
  the first entry open.
\<close>

theorem faq_click_independent_witness:
  "carries (fst (dispatch (FaqClick (Some 21) (Some 22)) Rejected sample_world)) 11 show_class
   \<and> carries (fst (dispatch (FaqClick (Some 21) (Some 22)) Rejected sample_world)) 12 rotate_class
   \<and> carries (fst (dispatch (FaqClick (Some 21) (Some 22)) Rejected sample_world)) 21 show_class"
  using faq_click_independent
    [of "\<lparr>question = Some 10, answer = Some 11, arrow = Some 12\<rparr>" 11 12
        "\<lparr>question = Some 20, answer = Some 21, arrow = Some 22\<rparr>" Rejected sample_world]
  by (simp add: sample_world_carries carries_faq_click show_neq_rotate)

text \<open>
  C10. The loop that attaches the FAQ click handlers ends normally exactly when every
  matched entry has a question. When an entry has none, the entries before it having
  one, the script ends with a \<^verbatim>\<open>TypeError\<close> at that entry, and the listeners attached are
  those of the entries before it and no other: the entries after it get no handler.
\<close>

theorem forEach_faq_requires_questions:
  "(snd (main_js pg) = Normal) = (\<forall>i\<in>set (faqItems pg). question i \<noteq> None)
   \<and> (\<forall>pre item post.
         faqItems pg = pre @ item # post \<and> (\<forall>i\<in>set pre. question i \<noteq> None)
           \<and> question item = None
         \<longrightarrow> snd (main_js pg) = Throw TypeError
             \<and> listeners (fst (main_js pg)) = concat (map faq_listener pre))"
proof (intro conjI allI impI)
  show "(snd (main_js pg) = Normal) = (\<forall>i\<in>set (faqItems pg). question i \<noteq> None)"
    by (simp add: main_js_def forEach_faq_Normal)
next
  fix pre item post
  assume broken: "faqItems pg = pre @ item # post \<and> (\<forall>i\<in>set pre. question i \<noteq> None)
    \<and> question item = None"
  then have "main_js pg =
      (no_registrations\<lparr>ready_listener := True,
         listeners := concat (map faq_listener pre)\<rparr>, Throw TypeError)"
    using forEach_faq_stops [of pre item post]
    by (simp add: main_js_def no_registrations_def)
  then show "snd (main_js pg) = Throw TypeError"
    and "listeners (fst (main_js pg)) = concat (map faq_listener pre)"
    by simp_all
qed

text \<open>
  On the sample page with an entry without a question between the two others, only the
  first entry gets its listener; on the sample page itself both do.
\<close>

theorem forEach_faq_requires_questions_witness:
  "snd (main_js page_with_broken_entry) = Throw TypeError
   \<and> listeners (fst (main_js page_with_broken_entry))
       = [\<lparr>target = 10, on_event = Click, callback = FaqClick (Some 11) (Some 12)\<rparr>]
   \<and> snd (main_js sample_page) = Normal"
  using forEach_faq_requires_questions
    [of page_with_broken_entry, THEN conjunct2, rule_format,
     of "[\<lparr>question = Some 10, answer = Some 11, arrow = Some 12\<rparr>]"
        "\<lparr>question = None, answer = Some 31, arrow = Some 32\<rparr>"
        "[\<lparr>question = Some 20, answer = Some 21, arrow = Some 22\<rparr>]"]
    forEach_faq_requires_questions [of sample_page, THEN conjunct1]
  by (simp add: page_with_broken_entry_def sample_page_def faq_listener_def)

subsection \<open>The popup\<close>

text \<open>
  C6. When the popup element exists, the page becoming ready at time \<open>now\<close> and nothing
  but the timer acting on the page: at every time from \<open>now + 1000\<close> milliseconds on the
  popup carries the class \<^verbatim>\<open>show\<close>; at every time before that the script has not touched
  the page, so a popup that did not carry the class when the page became ready does not
  carry it. A popup that the page declares with the class carries it before the delay
  too.
\<close>

theorem popup_shown_after_delay:
  assumes "popup pg = Some p"
  shows "(1000 \<le> t \<longrightarrow>
            carries (elapse (now + t) (timers (page_ready pg now (fst (main_js pg)))) res w)
              p show_class)
       \<and> (t < 1000 \<longrightarrow>
            elapse (now + t) (timers (page_ready pg now (fst (main_js pg)))) res w = w)
       \<and> (t < 1000 \<and> \<not> carries w p show_class \<longrightarrow>
            \<not> carries (elapse (now + t) (timers (page_ready pg now (fst (main_js pg)))) res w)
                p show_class)"
  using assms
  by (simp add: timers_page_ready timers_main_js popup_show_def carries_on_classList
      contains_add)

text \<open>
  On the sample page with the popup declared with the class \<^verbatim>\<open>show\<close>, the popup exists
  and carries the class one millisecond before the delay has elapsed.
\<close>

theorem popup_shown_before_delay:
  "popup sample_page = Some 9
   \<and> carries (elapse 999 (timers (page_ready sample_page 0 (fst (main_js sample_page))))
      Rejected world_with_popup_shown) 9 show_class"
  by (simp add: sample_page_def timers_page_ready timers_main_js world_with_popup_shown_def
      carries_def classList_contains_def)

theorem popup_shown_after_delay_witness:
  "carries (elapse 1000 (timers (page_ready sample_page 0 (fst (main_js sample_page))))
      Rejected sample_world) 9 show_class
   \<and> \<not> carries (elapse 999 (timers (page_ready sample_page 0 (fst (main_js sample_page))))
      Rejected sample_world) 9 show_class"
  using popup_shown_after_delay [of sample_page 9 1000 0 Rejected sample_world]
    popup_shown_after_delay [of sample_page 9 999 0 Rejected sample_world]
  by (simp add: sample_page_def sample_world_carries)

text \<open>
  C7. When the popup element exists, the click handler of the close control ends
  normally and the popup does not carry the class \<^verbatim>\<open>show\<close> afterwards, whether or not it
  carried it before; its other classes stay as they were.
\<close>

theorem closeBtn_click_hides:
  assumes "popup pg = Some p"
  shows "snd (dispatch (CloseClick (popup pg)) res w) = Normal
       \<and> \<not> carries (fst (dispatch (CloseClick (popup pg)) res w)) p show_class
       \<and> (\<forall>tok. tok \<noteq> show_class \<longrightarrow>
            carries (fst (dispatch (CloseClick (popup pg)) res w)) p tok = carries w p tok)"
proof -
  have "carries (fst (dispatch (CloseClick (popup pg)) res w)) p tok
          = (tok \<noteq> show_class \<and> carries w p tok)" for tok
    using assms
    by (simp add: closeBtn_click_def carries_on_classList contains_remove)
      (simp add: carries_def)
  moreover have "snd (dispatch (CloseClick (popup pg)) res w) = Normal"
    using assms by (simp add: closeBtn_click_def snd_on_classList)
  ultimately show ?thesis
    by simp
qed

text \<open>
  On the sample page: a click on the close control once the timer has shown the popup,
  and a click before, while the popup is still hidden.
\<close>

theorem closeBtn_click_hides_witness:
  "carries (elapse 1000 (timers (page_ready sample_page 0 (fst (main_js sample_page))))
      Rejected sample_world) 9 show_class
   \<and> \<not> carries (fst (dispatch (CloseClick (popup sample_page)) Rejected
        (elapse 1000 (timers (page_ready sample_page 0 (fst (main_js sample_page))))
           Rejected sample_world))) 9 show_class
   \<and> \<not> carries (fst (dispatch (CloseClick (popup sample_page)) Rejected sample_world))
        9 show_class"
  using closeBtn_click_hides [of sample_page 9 Rejected
      "elapse 1000 (timers (page_ready sample_page 0 (fst (main_js sample_page))))
         Rejected sample_world"]
    closeBtn_click_hides [of sample_page 9 Rejected sample_world]
  by (simp add: sample_page_def timers_page_ready timers_main_js popup_show_def
      carries_on_classList contains_add)

text \<open>
  C9. When the close control exists its click handler is attached, whether or not the
  popup exists, and the handler dereferences the popup without a test: it ends normally
  exactly when the popup exists, and without the popup it throws a \<^verbatim>\<open>TypeError\<close> and
  changes nothing.
\<close>

theorem closeBtn_click_requires_popup:
  assumes "closeBtn pg = Some b"
  shows "\<lparr>target = b, on_event = Click, callback = CloseClick (popup pg)\<rparr>
           \<in> set (listeners (page_ready pg now reg))
       \<and> (snd (dispatch (CloseClick (popup pg)) res w) = Normal) = (popup pg \<noteq> None)
       \<and> (popup pg = None \<longrightarrow> dispatch (CloseClick (popup pg)) res w = (w, Throw TypeError))"
  using listeners_page_ready_closeBtn [OF assms]
  by (cases "popup pg") (simp_all add: closeBtn_click_def on_classList_def)

theorem closeBtn_click_requires_popup_witness:
  "\<lparr>target = 2, on_event = Click, callback = CloseClick None\<rparr>
     \<in> set (listeners (page_ready page_without_popup 0 (fst (main_js page_without_popup))))
   \<and> dispatch (CloseClick (popup page_without_popup)) Rejected sample_world
       = (sample_world, Throw TypeError)"
  using closeBtn_click_requires_popup
    [of page_without_popup 2 0 "fst (main_js page_without_popup)" Rejected sample_world]
  by (simp add: page_without_popup_def sample_page_def)

end
